theory Spec2Isabelle
  imports
    Main
    "HOL-Library.Char_ord"
    "HOL-Library.List_Lexorder"
    "HOL-Library.Product_Lexorder"
    "HOL-Library.Multiset"
    "HOL-Library.Sublist"
begin

section \<open>Python strings\<close>

text \<open>
  A path is a Python \<open>str\<close>. It is modelled as a \<open>string\<close> whose characters are the code
  points below 256; the order on characters (\<open>Char_ord\<close>) is the order of the code points
  and the order on strings (\<open>List_Lexorder\<close>) is the lexicographic one, as Python compares
  \<open>str\<close> values. Tuples compare lexicographically (\<open>Product_Lexorder\<close>), with
  \<open>False < True\<close>.
\<close>

definition startswith :: "string \<Rightarrow> string \<Rightarrow> bool" where
  \<comment> \<open>\<open>s.startswith(p)\<close>\<close>
  "startswith s p = (take (length p) s = p)"

definition endswith :: "string \<Rightarrow> string \<Rightarrow> bool" where
  \<comment> \<open>\<open>s.endswith(p)\<close>\<close>
  "endswith s p = (drop (length s - length p) s = p)"

fun split :: "char \<Rightarrow> string \<Rightarrow> string list" where
  \<comment> \<open>\<open>s.split(sep)\<close> for a separator of one character. The result is never the empty
      list, so the second branch of the \<open>case\<close> is never taken.\<close>
  "split sep [] = [[]]"
| "split sep (c # cs) =
     (if c = sep then [] # split sep cs
      else (case split sep cs of
              part # parts \<Rightarrow> (c # part) # parts
            | [] \<Rightarrow> [[c]]))"

definition lower_char :: "char \<Rightarrow> char" where
  \<comment> \<open>\<open>str.lower\<close> on one code point below 256: A-Z and the upper-case letters of
      Latin-1 (0xC0-0xDE without the multiplication sign 0xD7) move up by 32\<close>
  "lower_char c =
     (let n = (of_char c :: nat)
      in if (65 \<le> n \<and> n \<le> 90) \<or> (192 \<le> n \<and> n \<le> 222 \<and> n \<noteq> 215)
         then char_of (n + 32) else c)"

definition lower :: "string \<Rightarrow> string" where
  \<comment> \<open>\<open>s.lower()\<close>\<close>
  "lower s = map lower_char s"

definition join :: "string \<Rightarrow> string list \<Rightarrow> string" where
  \<comment> \<open>\<open>sep.join(xs)\<close>\<close>
  "join sep xs = (case xs of [] \<Rightarrow> [] | y # ys \<Rightarrow> y @ concat (map (\<lambda>z. sep @ z) ys))"

definition sorted_key :: "('a \<Rightarrow> 'k::linorder) \<Rightarrow> 'a list \<Rightarrow> 'a list" where
  \<comment> \<open>\<open>sorted(xs, key=f)\<close>: a stable sort by ascending key\<close>
  "sorted_key f xs = sort_key f xs"

section \<open>The sorter\<close>

definition file_key :: "string \<Rightarrow> nat \<times> bool \<times> string \<times> string" where
  "file_key file =
     (let parts = split CHR ''/'' file;
          is_dir = endswith file ''/''
      in (length parts,
          \<not> is_dir,
          concat (map (\<lambda>p. p @ ''/'') (butlast parts)),
          lower (last parts)))"

definition sort_files :: "string list \<Rightarrow> string list" where
  "sort_files files = sorted_key file_key files"

section \<open>The skip-lists\<close>

definition CACHE_FILES :: "string list" where
  "CACHE_FILES =
     [''*.pyc'', ''*.class'', ''*.o'', ''*.obj'', ''*.dll'', ''*.exe'', ''*.so'',
      ''*.cache'', ''*.swp'', ''*~'']"

definition CACHE_DIRS :: "string list" where
  "CACHE_DIRS =
     [''__pycache__'', ''node_modules'', ''target'', ''build'', ''dist'', ''.cache'',
      ''.pytest_cache'', ''*.egg-info'', ''vendor'', ''.gradle'']"

definition SKIP_FILES :: "string list" where
  "SKIP_FILES =
     [''__init__.py'', ''aider-cli.py'', ''aider-cli.sh'', ''.aider.chat.history.md'',
      ''.aider.conf.yml'', ''.aider.input..aider.input.history'',
      ''.aider.tags..aider.tags.cache.v3/'', ''.codeiumignore'', ''README.md'',
      ''ARCHITECTURE.md''] @ CACHE_FILES"

definition SKIP_DIRS :: "string list" where
  "SKIP_DIRS =
     [''.git/'', ''config/'', ''docs/'', ''input/'', ''output/'', ''markdowns/'']
     @ CACHE_DIRS"

section \<open>The filter\<close>

definition os_path_basename :: "string \<Rightarrow> string" where
  \<comment> \<open>\<open>os.path.basename\<close> of \<open>posixpath\<close>: \<open>p[p.rfind('/') + 1:]\<close>, the text after the
      last separator; it is empty for a path that ends with the separator\<close>
  "os_path_basename p = rev (takeWhile (\<lambda>c. c \<noteq> CHR ''/'') (rev p))"

fun fnmatch :: "string \<Rightarrow> string \<Rightarrow> bool" where
  \<comment> \<open>\<open>fnmatch.fnmatch(name, pat)\<close> of the standard library on a POSIX system (where
      \<open>os.path.normcase\<close> changes nothing): the whole name must match; \<open>*\<close> stands for any
      text, \<open>?\<close> for any one character, every other character for itself. Bracket
      expressions \<open>[seq]\<close> are not modelled: the function is the library's on the patterns
      without \<open>[\<close>, as all configured ones are.\<close>
  "fnmatch name [] = (name = [])"
| "fnmatch [] (p # ps) = (p = CHR ''*'' \<and> fnmatch [] ps)"
| "fnmatch (c # cs) (p # ps) =
     (if p = CHR ''*'' then fnmatch (c # cs) ps \<or> fnmatch cs (p # ps)
      else (p = CHR ''?'' \<or> p = c) \<and> fnmatch cs ps)"

definition should_keep :: "string list \<Rightarrow> string list \<Rightarrow> string \<Rightarrow> bool" where
  \<comment> \<open>the inner function of \<open>filter_files\<close>, closed over the two skip-lists; each
      \<open>for\<close> loop returns False at the first hit\<close>
  "should_keep skip_patterns skip_dirs file =
     (if endswith file ''/''
      then \<not> (\<exists>dir \<in> set skip_dirs. startswith file dir)
      else if startswith (os_path_basename file) ''.'' then False
      else \<not> (\<exists>pattern \<in> set skip_patterns. fnmatch (os_path_basename file) pattern))"

definition filter_files :: "string list \<Rightarrow> string list \<Rightarrow> string list \<Rightarrow> string list" where
  "filter_files files skip_patterns skip_dirs =
     filter (should_keep skip_patterns skip_dirs) files"


section \<open>The outside world\<close>

text \<open>
  The program talks to three external programs, to the file system and to the user. Their
  answers are the fields of a record; what the program prints, asks and runs is a list of
  events in the order it happens; a function that can end the program returns a
  \<open>result\<close> beside its events.
\<close>

datatype event =
    Print string  \<comment> \<open>a line on standard output\<close>
  | PrintErr string  \<comment> \<open>a line on the error stream\<close>
  | Prompt string  \<comment> \<open>the prompt that \<open>input\<close> writes before it reads a line\<close>
  | Exec "string list"  \<comment> \<open>\<open>subprocess.run\<close> of the assistant's command line\<close>

datatype 'a result =
    Return 'a
  | Exit int  \<comment> \<open>\<open>sys.exit(n)\<close>\<close>
  | Uncaught string  \<comment> \<open>an exception that no handler of the program catches\<close>

datatype check_output =
    Stdout string  \<comment> \<open>exit status 0: the text the command wrote\<close>
  | CalledProcessError string  \<comment> \<open>another exit status; the text is \<open>str(e)\<close>\<close>
  | OtherError string  \<comment> \<open>any other exception, as when the program cannot be started\<close>

datatype completed =
    CompletedProcess int string  \<comment> \<open>\<open>returncode\<close> and decoded \<open>stdout\<close>\<close>
  | RunError string  \<comment> \<open>\<open>subprocess.run\<close> raised: the program could not be run\<close>

record world =
  git :: "string list \<Rightarrow> check_output"
    \<comment> \<open>\<open>subprocess.check_output(cmd, text=True)\<close> of a git command line\<close>
  fzf :: "string \<Rightarrow> completed"
    \<comment> \<open>\<open>subprocess.run\<close> of the fuzzy finder, by the text it is fed\<close>
  aider :: "string list \<Rightarrow> completed"
    \<comment> \<open>\<open>subprocess.run\<close> of the assistant's command line\<close>
  isdir :: "string \<Rightarrow> bool"
  walk :: "string \<Rightarrow> (string \<times> string list) list"
    \<comment> \<open>\<open>os.walk(top)\<close>: the root and the file names of every directory visited\<close>
  abspath :: "string \<Rightarrow> string"
  relpath :: "string \<Rightarrow> string \<Rightarrow> string"
    \<comment> \<open>\<open>os.path.relpath(path, start)\<close> for a path that is not empty\<close>

type_synonym 'a io = "event list \<times> 'a result"

definition bind :: "'a io \<Rightarrow> ('a \<Rightarrow> 'b io) \<Rightarrow> 'b io" where
  \<comment> \<open>one statement after another: the second runs only when the first returns\<close>
  "bind m f =
     (case m of
        (es, Return x) \<Rightarrow> (case f x of (es', r) \<Rightarrow> (es @ es', r))
      | (es, Exit n) \<Rightarrow> (es, Exit n)
      | (es, Uncaught e) \<Rightarrow> (es, Uncaught e))"

definition line_break :: "char \<Rightarrow> bool" where
  \<comment> \<open>the line boundaries of \<open>str.splitlines\<close> below code point 256\<close>
  "line_break c = ((of_char c :: nat) \<in> {10, 11, 12, 13, 28, 29, 30, 133})"

fun splitlines_from :: "string \<Rightarrow> string \<Rightarrow> string list" where
  \<comment> \<open>the first argument is the line read so far, reversed\<close>
  "splitlines_from line [] = (if line = [] then [] else [rev line])"
| "splitlines_from line [c] = (if line_break c then [rev line] else [rev (c # line)])"
| "splitlines_from line (c # d # cs) =
     (if c = CHR 0x0D \<and> d = CHR 0x0A then rev line # splitlines_from [] cs
      else if line_break c then rev line # splitlines_from [] (d # cs)
      else splitlines_from (c # line) (d # cs))"

definition splitlines :: "string \<Rightarrow> string list" where
  \<comment> \<open>\<open>s.splitlines()\<close>\<close>
  "splitlines s = splitlines_from [] s"

definition is_space :: "char \<Rightarrow> bool" where
  \<comment> \<open>the white space of \<open>str.strip\<close> below code point 256\<close>
  "is_space c = ((of_char c :: nat) \<in> {9, 10, 11, 12, 13, 28, 29, 30, 31, 32, 133, 160})"

definition strip :: "string \<Rightarrow> string" where
  \<comment> \<open>\<open>s.strip()\<close>\<close>
  "strip s = rev (dropWhile is_space (rev (dropWhile is_space s)))"

section \<open>The file lister\<close>

definition FILE_TYPES :: "(string \<times> string option \<times> string) list" where
  "FILE_TYPES =
     [(''1'', Some ''py'', ''Python files''),
      (''2'', Some ''c'', ''C files''),
      (''3'', Some ''cpp'', ''C++ files''),
      (''4'', Some ''rs'', ''Rust files''),
      (''5'', Some ''js'', ''JavaScript files''),
      (''6'', Some ''ts'', ''TypeScript files''),
      (''7'', Some ''sh'', ''Shell scripts''),
      (''8'', None, ''All files'')]"

definition git_ls_files :: "string list" where
  "git_ls_files = [''git'', ''ls-files'', ''--cached'', ''--others'', ''--exclude-standard'']"

definition top_dirs :: "string list \<Rightarrow> string list" where
  \<comment> \<open>the set \<open>top_dirs\<close> as \<open>list(top_dirs)\<close> enumerates it: without repetition, in an
      order Python leaves open (here the order of the last occurrences)\<close>
  "top_dirs files =
     remdups (map (\<lambda>file. hd (split CHR ''/'' file) @ ''/'')
                  (filter (\<lambda>file. length (split CHR ''/'' file) > 1) files))"

definition all_entries :: "string list \<Rightarrow> string list" where
  "all_entries files =
     sorted_key (\<lambda>x. (\<not> endswith x ''/'', lower x)) (top_dirs files @ files)"

definition git_ls_files_cmd :: "string option \<Rightarrow> string list" where
  \<comment> \<open>\<open>cmd\<close>: the pattern is appended when \<open>file_type\<close> is neither \<open>None\<close> nor empty\<close>
  "git_ls_files_cmd file_type =
     git_ls_files @
       (case file_type of None \<Rightarrow> [] | Some t \<Rightarrow> if t = [] then [] else [''*.'' @ t])"

definition get_git_files :: "world \<Rightarrow> string option \<Rightarrow> string list io" where
  "get_git_files w file_type =
     (case git w (git_ls_files_cmd file_type) of
        Stdout text \<Rightarrow> ([], Return (all_entries (splitlines text)))
      | CalledProcessError e \<Rightarrow> ([PrintErr (''Error retrieving Git files: '' @ e)], Exit 1)
      | OtherError e \<Rightarrow> ([], Uncaught e))"

section \<open>The interactive selector\<close>

definition os_path_dirname :: "string \<Rightarrow> string" where
  \<comment> \<open>\<open>os.path.dirname\<close> of \<open>posixpath\<close>\<close>
  "os_path_dirname p =
     (let head = take (length p - length (os_path_basename p)) p
      in if head \<noteq> [] \<and> head \<noteq> replicate (length head) CHR ''/''
         then rev (dropWhile (\<lambda>c. c = CHR ''/'') (rev head)) else head)"

definition os_path_join :: "string \<Rightarrow> string \<Rightarrow> string" where
  \<comment> \<open>\<open>os.path.join(a, b)\<close> of \<open>posixpath\<close>\<close>
  "os_path_join a b =
     (if startswith b ''/'' then b
      else if a = [] \<or> endswith a ''/'' then a @ b
      else a @ ''/'' @ b)"

definition selected_item :: "world \<Rightarrow> string \<Rightarrow> string \<Rightarrow> string + string list" where
  \<comment> \<open>the body of the loop over the selected lines: the paths it appends, or the text of
      the \<open>ValueError\<close> that \<open>os.path.relpath\<close> raises on the empty path\<close>
  "selected_item w git_root item =
     (if isdir w item
      then Inr (concat (map (\<lambda>(root, filenames).
                  map (\<lambda>filename. relpath w (os_path_join root filename) git_root)
                      (filter (\<lambda>filename. endswith filename ''.py'') filenames))
                (walk w item)))
      else if item = [] then Inl ''no path specified''
      else Inr [relpath w item git_root])"

fun selected_items :: "world \<Rightarrow> string \<Rightarrow> string list \<Rightarrow> string + string list" where
  "selected_items w git_root [] = Inr []"
| "selected_items w git_root (item # items) =
     (case selected_item w git_root item of
        Inl e \<Rightarrow> Inl e
      | Inr fs \<Rightarrow>
          (case selected_items w git_root items of
             Inl e \<Rightarrow> Inl e
           | Inr gs \<Rightarrow> Inr (fs @ gs)))"

definition fzf_failed :: "string \<Rightarrow> string list io" where
  \<comment> \<open>the handler \<open>except Exception as e\<close>\<close>
  "fzf_failed e = ([PrintErr (''Error running fzf: '' @ e)], Exit 1)"

definition git_rev_parse :: "string list" where
  "git_rev_parse = [''git'', ''rev-parse'', ''--show-toplevel'']"

definition interactive_file_selection :: "world \<Rightarrow> string list \<Rightarrow> string list io" where
  "interactive_file_selection w files =
     (let current_dir = abspath w (if files \<noteq> [] then os_path_dirname (hd files) else ''.'')
      in case git w git_rev_parse of
           OtherError e \<Rightarrow> fzf_failed e
         | toplevel \<Rightarrow>
             (let git_root = (case toplevel of Stdout text \<Rightarrow> strip text | _ \<Rightarrow> current_dir);
                  fzf_input = join [CHR 0x0A] files
              in case fzf w fzf_input of
                   RunError e \<Rightarrow> fzf_failed e
                 | CompletedProcess returncode stdout \<Rightarrow>
                     if returncode = 0
                     then (case selected_items w git_root (split CHR 0x0A (strip stdout)) of
                             Inl e \<Rightarrow> fzf_failed e
                           | Inr final_files \<Rightarrow> ([], Return (sort (remdups final_files))))
                     else ([], Return [])))"

section \<open>The main program\<close>

definition expand_directory :: "world \<Rightarrow> string \<Rightarrow> string list io" where
  "expand_directory w directory =
     (case git w (git_ls_files @ [directory @ ''*'']) of
        Stdout text \<Rightarrow> ([], Return (splitlines text))
      | CalledProcessError e \<Rightarrow> ([PrintErr (''Error finding files in '' @ directory)], Return [])
      | OtherError e \<Rightarrow> ([], Uncaught e))"

fun read_choice :: "string list \<Rightarrow> (string \<times> string list) io" where
  \<comment> \<open>the loop that reads the choice, over the lines the user types; it returns the
      choice and the lines not yet read. \<open>input\<close> raises \<open>EOFError\<close> when no line is left.\<close>
  "read_choice [] = ([Prompt ''Enter your choice (1-8): ''], Uncaught ''EOFError'')"
| "read_choice (l # ls) =
     (let choice = strip l
      in if map_of FILE_TYPES choice \<noteq> None
         then ([Prompt ''Enter your choice (1-8): ''], Return (choice, ls))
         else (case read_choice ls of
                 (es, r) \<Rightarrow>
                   (Prompt ''Enter your choice (1-8): ''
                      # Print ''Invalid choice. Please try again.'' # es, r)))"

fun expand_selected :: "world \<Rightarrow> string list \<Rightarrow> string list io" where
  \<comment> \<open>the loop that builds \<open>final_files\<close>\<close>
  "expand_selected w [] = ([], Return [])"
| "expand_selected w (file # files) =
     bind (if endswith file ''/'' then expand_directory w file else ([], Return [file]))
       (\<lambda>fs. bind (expand_selected w files) (\<lambda>gs. ([], Return (fs @ gs))))"

definition aider_command :: "string list \<Rightarrow> string list" where
  \<comment> \<open>the loop \<open>aider_command.extend(["--file", f])\<close>\<close>
  "aider_command final_files = foldl (\<lambda>cmd f. cmd @ [''--file'', f]) [''aider''] final_files"

definition main_command :: "world \<Rightarrow> string list \<Rightarrow> string list \<Rightarrow> unit io" where
  \<comment> \<open>\<open>main\<close> from the test for an empty selection to its end; the last argument is the
      lines the user has not typed yet\<close>
  "main_command w final_files inputs =
     (if final_files = [] then ([Print ''No files selected. Exiting.''], Exit 0)
      else
        (let cmd = aider_command final_files;
             shown = [Print ''Generated Aider command:'', Print (join '' '' cmd),
                      Prompt ''Do you want to execute this command? (yes/no): '']
         in case inputs of
              [] \<Rightarrow> (shown, Uncaught ''EOFError'')
            | answer # _ \<Rightarrow>
                if lower answer = ''yes''
                then (case aider w cmd of
                        CompletedProcess _ _ \<Rightarrow> (shown @ [Exec cmd], Return ())
                      | RunError e \<Rightarrow> (shown @ [Exec cmd], Uncaught e))
                else (shown, Return ())))"

definition main :: "world \<Rightarrow> string list \<Rightarrow> unit io" where
  "main w inputs =
     bind (Print ''Select file type to list:''
             # map (\<lambda>(key, ext, description). Print (key @ ''. '' @ description)) FILE_TYPES,
           Return ())
       (\<lambda>_. bind (read_choice inputs)
         (\<lambda>(choice, rest).
            case map_of FILE_TYPES choice of
              None \<Rightarrow> ([], Uncaught ''KeyError'')
            | Some (selected_type, description) \<Rightarrow>
                bind ([Print (''Listing '' @ description)], Return ())
                  (\<lambda>_. bind (get_git_files w selected_type)
                    (\<lambda>all_files.
                       let filtered_files = filter_files all_files SKIP_FILES SKIP_DIRS;
                           sorted_files = sort_files filtered_files
                       in bind (interactive_file_selection w sorted_files)
                            (\<lambda>selected_files. bind (expand_selected w selected_files)
                              (\<lambda>final_files. main_command w final_files rest))))))"

section \<open>Worlds for the examples\<close>

definition tracked_example :: "string list" where
  "tracked_example = [''a.py'', ''b/__init__.py'', ''b/x.py'', ''node_modules/y.js'']"

definition world_example :: world where
  \<comment> \<open>git lists the four tracked files; the user selects \<open>a.py\<close> in the fuzzy finder\<close>
  "world_example =
     \<lparr>git = (\<lambda>cmd. if cmd = git_rev_parse then Stdout (''/repo'' @ [CHR 0x0A])
                    else Stdout (concat (map (\<lambda>f. f @ [CHR 0x0A]) tracked_example))),
      fzf = (\<lambda>input. CompletedProcess 0 (''a.py'' @ [CHR 0x0A])),
      aider = (\<lambda>cmd. CompletedProcess 0 []),
      isdir = (\<lambda>p. False),
      walk = (\<lambda>p. []),
      abspath = (\<lambda>p. ''/repo/'' @ p),
      relpath = (\<lambda>p start. p)\<rparr>"

definition world_git_failing :: world where
  \<comment> \<open>every git command exits with status 128\<close>
  "world_git_failing =
     world_example\<lparr>git := (\<lambda>cmd. CalledProcessError ''returned non-zero exit status 128.'')\<rparr>"

definition world_fzf_cancelled :: world where
  \<comment> \<open>the fuzzy finder exits with status 130, as it does when the user leaves it\<close>
  "world_fzf_cancelled = world_example\<lparr>fzf := (\<lambda>input. CompletedProcess 130 [])\<rparr>"

definition world_fzf_missing :: world where
  \<comment> \<open>the fuzzy finder is not installed: \<open>subprocess.run\<close> raises \<open>FileNotFoundError\<close>\<close>
  "world_fzf_missing =
     world_example\<lparr>fzf := (\<lambda>input. RunError ''[Errno 2] No such file or directory: fzf'')\<rparr>"

section \<open>Properties of \<open>split\<close>\<close>

lemma split_nonempty: "split sep s \<noteq> []"
  by (induction s) (auto split: list.splits)

lemma hd_split: "hd (split sep s) = takeWhile (\<lambda>c. c \<noteq> sep) s"
  by (induction s) (auto split: list.splits simp: split_nonempty)

lemma length_split: "length (split sep s) = Suc (length (filter (\<lambda>c. c = sep) s))"
  by (induction s) (auto split: list.splits simp: split_nonempty)

lemma split_more_than_one: "(Suc 0 < length (split sep s)) = (sep \<in> set s)"
proof -
  have "(filter (\<lambda>c. c = sep) s \<noteq> []) = (sep \<in> set s)"
    by (auto simp: filter_empty_conv)
  then show ?thesis by (simp add: length_split)
qed

section \<open>Properties of the sorter\<close>

lemma sorted_key_sorted: "sorted (map f (sorted_key f xs))"
  by (simp add: sorted_key_def)

lemma sorted_key_mset: "mset (sorted_key f xs) = mset xs"
  by (simp add: sorted_key_def)

lemma sorted_key_fixed: "sorted (map f xs) \<Longrightarrow> sorted_key f xs = xs"
  by (simp add: sorted_key_def sort_key_id_if_sorted)

text \<open>
  C8. The sorter is idempotent: sorting the output of the sorter returns that output
  unchanged. Determinism is the fact that \<open>sort_files\<close> is a function of its argument.
\<close>

theorem sort_files_idempotent: "sort_files (sort_files l) = sort_files l"
  unfolding sort_files_def by (rule sorted_key_fixed) (rule sorted_key_sorted)

text \<open>
  C9. The output of the sorter is a permutation of its input: every path occurs in the
  output as many times as in the input.
\<close>

theorem sort_files_permutation: "mset (sort_files l) = mset l"
  unfolding sort_files_def by (rule sorted_key_mset)

lemma sorted_key_nth_mono:
  assumes "i \<le> j" and "j < length xs"
  shows "f (sorted_key f xs ! i) \<le> f (sorted_key f xs ! j)"
proof -
  have len: "length (sorted_key f xs) = length xs"
    by (simp add: sorted_key_def)
  have "map f (sorted_key f xs) ! i \<le> map f (sorted_key f xs) ! j"
    using assms len by (intro sorted_nth_mono sorted_key_sorted) simp_all
  then show ?thesis using assms len by simp
qed

lemma file_key_dir_less:
  assumes "endswith d ''/''" and "\<not> endswith f ''/''"
    and "length (split CHR ''/'' d) = length (split CHR ''/'' f)"
  shows "file_key d < file_key f"
  using assms by (simp add: file_key_def Let_def)

subsection \<open>The example of the specification, step by step\<close>

lemma example_listing:
  "all_entries tracked_example =
     [''b/'', ''node_modules/'', ''a.py'', ''b/__init__.py'', ''b/x.py'', ''node_modules/y.js'']"
  by (simp add: all_entries_def top_dirs_def tracked_example_def sorted_key_def endswith_def
      lower_def lower_char_def)

lemma example_filtered:
  "filter_files
     [''b/'', ''node_modules/'', ''a.py'', ''b/__init__.py'', ''b/x.py'', ''node_modules/y.js'']
     SKIP_FILES SKIP_DIRS = [''b/'', ''a.py'', ''b/x.py'', ''node_modules/y.js'']"
  by (simp add: filter_files_def should_keep_def endswith_def startswith_def
      os_path_basename_def SKIP_FILES_def SKIP_DIRS_def CACHE_FILES_def CACHE_DIRS_def)

lemma example_sorted:
  "sort_files [''b/'', ''a.py'', ''b/x.py'', ''node_modules/y.js''] =
     [''a.py'', ''b/'', ''b/x.py'', ''node_modules/y.js'']"
  by (simp add: sort_files_def sorted_key_def file_key_def endswith_def lower_def lower_char_def)

lemma example_pipeline:
  "sort_files (filter_files (all_entries tracked_example) SKIP_FILES SKIP_DIRS) =
     [''a.py'', ''b/'', ''b/x.py'', ''node_modules/y.js'']"
  by (simp only: example_listing example_filtered example_sorted)

subsection \<open>Directories and files in the order of the sorter\<close>

text \<open>
  The sort key compares the number of segments first, then the directory flag. So a
  directory entry precedes a file entry with the same number of segments, and an entry
  with fewer segments precedes one with more, whatever the two are.
\<close>

lemma sort_files_dirs_first_same_count:
  assumes "i < length (sort_files l)" and "j < length (sort_files l)"
    and "endswith (sort_files l ! i) ''/''" and "\<not> endswith (sort_files l ! j) ''/''"
    and "length (split CHR ''/'' (sort_files l ! i)) = length (split CHR ''/'' (sort_files l ! j))"
  shows "i < j"
proof (rule ccontr)
  assume "\<not> i < j"
  then have "j \<le> i" by simp
  moreover from assms(1) have "i < length l" by (simp add: sort_files_def sorted_key_def)
  ultimately have "file_key (sort_files l ! j) \<le> file_key (sort_files l ! i)"
    unfolding sort_files_def by (rule sorted_key_nth_mono)
  moreover have "file_key (sort_files l ! i) < file_key (sort_files l ! j)"
    using assms(3-5) by (rule file_key_dir_less)
  ultimately show False by simp
qed

lemma file_key_shallower_less:
  assumes "length (split CHR ''/'' x) < length (split CHR ''/'' y)"
  shows "file_key x < file_key y"
  using assms by (simp add: file_key_def Let_def)

lemma sort_files_shallower_first:
  assumes "i < length (sort_files l)" and "j < length (sort_files l)"
    and "length (split CHR ''/'' (sort_files l ! j)) < length (split CHR ''/'' (sort_files l ! i))"
  shows "j < i"
proof (rule ccontr)
  assume "\<not> j < i"
  then have "i \<le> j" by simp
  moreover from assms(2) have "j < length l" by (simp add: sort_files_def sorted_key_def)
  ultimately have "file_key (sort_files l ! i) \<le> file_key (sort_files l ! j)"
    unfolding sort_files_def by (rule sorted_key_nth_mono)
  moreover have "file_key (sort_files l ! j) < file_key (sort_files l ! i)"
    using assms(3) by (rule file_key_shallower_less)
  ultimately show False by simp
qed

text \<open>
  A directory entry \<open>p d /\<close> and a file \<open>p f\<close> in the same parent directory \<open>p\<close>: the
  trailing separator gives the directory entry one segment more than the file has.
\<close>

lemma sibling_segment_counts:
  assumes "CHR ''/'' \<notin> set d" and "CHR ''/'' \<notin> set f"
  shows "length (split CHR ''/'' (p @ d @ ''/'')) = Suc (length (split CHR ''/'' (p @ f)))"
proof -
  have "filter (\<lambda>c. c = CHR ''/'') d = []" and "filter (\<lambda>c. c = CHR ''/'') f = []"
    using assms by (auto simp: filter_empty_conv)
  then show ?thesis by (simp add: length_split)
qed

text \<open>
  So the sorter places every file before every directory entry of the same parent
  directory, for every input list: the reverse of the order that the docstring of
  \<open>sort_files\<close> and the sort in \<open>get_git_files\<close> give.
\<close>

lemma sort_files_file_before_sibling_directory:
  assumes "i < length (sort_files l)" and "j < length (sort_files l)"
    and "sort_files l ! i = p @ d @ ''/''" and "sort_files l ! j = p @ f"
    and "CHR ''/'' \<notin> set d" and "CHR ''/'' \<notin> set f"
  shows "j < i"
proof -
  have "length (split CHR ''/'' (sort_files l ! j)) < length (split CHR ''/'' (sort_files l ! i))"
    using sibling_segment_counts [OF assms(5,6), of p] assms(3,4) by simp
  with assms(1,2) show ?thesis by (rule sort_files_shallower_first)
qed

text \<open>
  C1. The claim is that a directory entry precedes a file entry of the same parent
  directory, and that the tracked files \<open>a.py\<close>, \<open>b/__init__.py\<close>, \<open>b/x.py\<close>,
  \<open>node_modules/y.js\<close> end as \<open>b/\<close>, \<open>a.py\<close>. The program does the reverse: given the
  directory entry \<open>b/\<close> and the file \<open>a.py\<close>, both at the top level, the sorter returns the
  file first, and listing, filtering and sorting the tracked files of the example yield
  \<open>a.py\<close>, \<open>b/\<close>, \<open>b/x.py\<close>, \<open>node_modules/y.js\<close>.
\<close>

theorem sort_files_top_level_file_first:
  "sort_files [''b/'', ''a.py''] = [''a.py'', ''b/''] \<and>
   sort_files (filter_files (all_entries tracked_example) SKIP_FILES SKIP_DIRS) =
     [''a.py'', ''b/'', ''b/x.py'', ''node_modules/y.js'']"
proof
  show "sort_files [''b/'', ''a.py''] = [''a.py'', ''b/'']"
    by (simp add: sort_files_def sorted_key_def file_key_def endswith_def lower_def lower_char_def)
  show "sort_files (filter_files (all_entries tracked_example) SKIP_FILES SKIP_DIRS) =
     [''a.py'', ''b/'', ''b/x.py'', ''node_modules/y.js'']"
    by (rule example_pipeline)
qed

section \<open>Properties of the filter\<close>



lemma SKIP_FILES_reject_empty: "pattern \<in> set SKIP_FILES \<Longrightarrow> \<not> fnmatch [] pattern"
  by (auto simp: SKIP_FILES_def CACHE_FILES_def)







text \<open>
  C10. The output of the filter is a subsequence of its input, and filtering the output
  again with the same skip-lists changes nothing.
\<close>

theorem filter_files_subsequence_idempotent:
  "subseq (filter_files files skip_patterns skip_dirs) files \<and>
   filter_files (filter_files files skip_patterns skip_dirs) skip_patterns skip_dirs =
     filter_files files skip_patterns skip_dirs"
  by (simp add: filter_files_def)

section \<open>Properties of the file lister\<close>

lemma top_dirs_set:
  "set (top_dirs files) =
     {takeWhile (\<lambda>c. c \<noteq> CHR ''/'') f @ ''/'' | f. f \<in> set files \<and> CHR ''/'' \<in> set f}"
  by (auto simp: top_dirs_def hd_split split_more_than_one)

lemma all_entries_mset:
  "mset (all_entries files) =
     mset files +
     mset_set {takeWhile (\<lambda>c. c \<noteq> CHR ''/'') f @ ''/'' | f. f \<in> set files \<and> CHR ''/'' \<in> set f}"
proof -
  have "distinct (top_dirs files)" by (simp add: top_dirs_def)
  then have "mset (top_dirs files) = mset_set (set (top_dirs files))"
    by (simp add: mset_set_set)
  then show ?thesis
    by (simp add: all_entries_def sorted_key_mset top_dirs_set)
qed

text \<open>
  C7. When git lists the files, the lister returns, and its result holds every listed path
  as often as it is listed, and beside them exactly one entry \<open>d/\<close> for every \<open>d\<close> that is
  the text before the first separator of a listed path with a separator (its top-level
  directory), and nothing else. The statement is about multisets, so it does not depend
  on the order in which Python enumerates the set of directories.
\<close>

theorem get_git_files_entries:
  assumes "git w (git_ls_files_cmd file_type) = Stdout text"
  shows "\<exists>entries. get_git_files w file_type = ([], Return entries) \<and>
           mset entries = mset (splitlines text) +
             mset_set {takeWhile (\<lambda>c. c \<noteq> CHR ''/'') f @ ''/'' | f.
                         f \<in> set (splitlines text) \<and> CHR ''/'' \<in> set f}"
  using assms by (simp add: get_git_files_def all_entries_mset)

text \<open>The theorem in the world of the example: the entries added are \<open>b/\<close> and \<open>node_modules/\<close>.\<close>

lemma example_git_output:
  "git world_example (git_ls_files_cmd None) =
     Stdout (concat (map (\<lambda>f. f @ [CHR 0x0A]) tracked_example))"
  by (simp add: world_example_def git_ls_files_cmd_def git_ls_files_def git_rev_parse_def)

lemma example_lines:
  "splitlines (concat (map (\<lambda>f. f @ [CHR 0x0A]) tracked_example)) = tracked_example"
  by (simp add: tracked_example_def splitlines_def line_break_def)

theorem get_git_files_entries_witness:
  "\<exists>entries. get_git_files world_example None = ([], Return entries) \<and>
     mset entries = mset tracked_example + mset [''b/'', ''node_modules/'']"
proof -
  have "top_dirs tracked_example = [''b/'', ''node_modules/'']"
    by (simp add: top_dirs_def tracked_example_def)
  then have "{takeWhile (\<lambda>c. c \<noteq> CHR ''/'') f @ ''/'' | f.
           f \<in> set tracked_example \<and> CHR ''/'' \<in> set f} = set [''b/'', ''node_modules/'']"
    by (simp only: top_dirs_set [symmetric])
  moreover have "mset_set (set [''b/'', ''node_modules/'']) = mset [''b/'', ''node_modules/'']"
    by (rule mset_set_set) simp
  ultimately show ?thesis
    using get_git_files_entries [OF example_git_output] by (simp only: example_lines)
qed

text \<open>
  C5. When the listing command exits with an error status (\<open>check_output\<close> raises
  \<open>CalledProcessError\<close>), the lister prints one message to the error stream and ends the
  program with exit status 1.
\<close>

theorem get_git_files_error:
  assumes "git w (git_ls_files_cmd file_type) = CalledProcessError e"
  shows "get_git_files w file_type =
           ([PrintErr (''Error retrieving Git files: '' @ e)], Exit 1)"
  using assms by (simp add: get_git_files_def)

theorem get_git_files_error_witness:
  "git world_git_failing (git_ls_files_cmd (Some ''py'')) =
     CalledProcessError ''returned non-zero exit status 128.'' \<and>
   get_git_files world_git_failing (Some ''py'') =
     ([PrintErr ''Error retrieving Git files: returned non-zero exit status 128.''], Exit 1)"
proof -
  have h: "git world_git_failing (git_ls_files_cmd (Some ''py'')) =
     CalledProcessError ''returned non-zero exit status 128.''"
    by (simp add: world_git_failing_def)
  from h get_git_files_error [OF h] show ?thesis by simp
qed

section \<open>Properties of the interactive selector\<close>

text \<open>
  C4, as the program has it. Let git be a program that can be started, so that the step
  reaches the fuzzy finder. When the fuzzy finder runs and exits with a status other than
  0, the selection is the empty list and the function returns to \<open>main\<close>. When the fuzzy
  finder cannot be run, \<open>subprocess.run\<close> raises, the handler prints the error to the
  error stream and ends the program with exit status 1.
\<close>

theorem interactive_file_selection_failure:
  assumes "\<forall>e. git w git_rev_parse \<noteq> OtherError e"
  shows "(fzf w (join [CHR 0x0A] files) = CompletedProcess returncode out \<and> returncode \<noteq> 0
            \<longrightarrow> interactive_file_selection w files = ([], Return [])) \<and>
         (fzf w (join [CHR 0x0A] files) = RunError e
            \<longrightarrow> interactive_file_selection w files =
                  ([PrintErr (''Error running fzf: '' @ e)], Exit 1))"
  using assms
  by (cases "git w git_rev_parse")
    (simp_all add: interactive_file_selection_def fzf_failed_def Let_def)

lemma example_rev_parse: "git world_fzf_cancelled git_rev_parse = Stdout (''/repo'' @ [CHR 0x0A])"
  by (simp add: world_fzf_cancelled_def world_example_def)

theorem interactive_file_selection_failure_witness:
  "(\<forall>e. git world_fzf_cancelled git_rev_parse \<noteq> OtherError e) \<and>
   fzf world_fzf_cancelled (join [CHR 0x0A] [''b/'', ''a.py'']) = CompletedProcess 130 [] \<and>
   (130::int) \<noteq> 0 \<and>
   interactive_file_selection world_fzf_cancelled [''b/'', ''a.py''] = ([], Return [])"
proof -
  have g: "\<forall>e. git world_fzf_cancelled git_rev_parse \<noteq> OtherError e"
    by (simp add: example_rev_parse)
  have f: "fzf world_fzf_cancelled (join [CHR 0x0A] [''b/'', ''a.py'']) = CompletedProcess 130 []"
    by (simp add: world_fzf_cancelled_def)
  from interactive_file_selection_failure [OF g, of "[''b/'', ''a.py'']" 130 "[]"] f
  have "interactive_file_selection world_fzf_cancelled [''b/'', ''a.py''] = ([], Return [])"
    by simp
  with g f show ?thesis by simp
qed

text \<open>
  The whole program in the two worlds: after a fuzzy finder that exits with status 130
  \<open>main\<close> goes on to the test for an empty selection and ends with status 0; with no
  fuzzy finder it ends inside the selection step with status 1.
\<close>

lemma main_selector_cancelled:
  "main world_fzf_cancelled [''8''] =
     ([Print ''Select file type to list:'', Print ''1. Python files'', Print ''2. C files'',
       Print ''3. C++ files'', Print ''4. Rust files'', Print ''5. JavaScript files'',
       Print ''6. TypeScript files'', Print ''7. Shell scripts'', Print ''8. All files'',
       Prompt ''Enter your choice (1-8): '', Print ''Listing All files'',
       Print ''No files selected. Exiting.''],
      Exit 0)"
  by code_simp

lemma main_selector_missing:
  "main world_fzf_missing [''8''] =
     ([Print ''Select file type to list:'', Print ''1. Python files'', Print ''2. C files'',
       Print ''3. C++ files'', Print ''4. Rust files'', Print ''5. JavaScript files'',
       Print ''6. TypeScript files'', Print ''7. Shell scripts'', Print ''8. All files'',
       Prompt ''Enter your choice (1-8): '', Print ''Listing All files'',
       PrintErr ''Error running fzf: [Errno 2] No such file or directory: fzf''],
      Exit 1)"
  by code_simp

text \<open>
  C4 as the specification states it fails where the fuzzy finder cannot be run: the
  selection step does not return the empty list, and the program ends with exit status 1
  instead of going on with an empty selection.
\<close>

theorem interactive_file_selection_missing_counterexample:
  "fzf world_fzf_missing (join [CHR 0x0A] [''b/'', ''a.py'']) =
     RunError ''[Errno 2] No such file or directory: fzf'' \<and>
   interactive_file_selection world_fzf_missing [''b/'', ''a.py''] =
     ([PrintErr ''Error running fzf: [Errno 2] No such file or directory: fzf''], Exit 1) \<and>
   interactive_file_selection world_fzf_missing [''b/'', ''a.py''] \<noteq> ([], Return []) \<and>
   snd (main world_fzf_missing [''8'']) = Exit 1"
proof -
  have "snd (main world_fzf_missing [''8'']) = Exit 1"
    by (simp only: main_selector_missing snd_conv)
  then show ?thesis
    by (simp add: interactive_file_selection_def fzf_failed_def world_fzf_missing_def
        world_example_def git_rev_parse_def)
qed

section \<open>Properties of the command assembler\<close>

lemma foldl_file_args:
  "foldl (\<lambda>cmd f. cmd @ [''--file'', f]) acc fs = acc @ concat (map (\<lambda>p. [''--file'', p]) fs)"
  by (induction fs arbitrary: acc) simp_all

lemma aider_command_args:
  "aider_command final_files = ''aider'' # concat (map (\<lambda>p. [''--file'', p]) final_files)"
  by (simp add: aider_command_def foldl_file_args)

text \<open>
  C6. For a final list of paths that is not empty, the command line is \<open>aider\<close> followed by
  \<open>--file\<close> and the path, for every path in the order of the list; the program prints it,
  joined by blanks, asks for confirmation, and runs it exactly when the answer in lower
  case is \<open>yes\<close>.
\<close>

theorem main_command_assembled:
  assumes "final_files \<noteq> []"
  shows "aider_command final_files =
           ''aider'' # concat (map (\<lambda>p. [''--file'', p]) final_files) \<and>
         fst (main_command w final_files (answer # rest)) =
           [Print ''Generated Aider command:'',
            Print (join '' '' (aider_command final_files)),
            Prompt ''Do you want to execute this command? (yes/no): '']
           @ (if lower answer = ''yes'' then [Exec (aider_command final_files)] else [])"
  using assms
  by (simp add: aider_command_args main_command_def Let_def split: completed.splits)


text \<open>
  The theorem at two paths: the answer \<open>YES\<close> runs the command, the answer \<open>yes\<close> followed by
  a blank does not.
\<close>

theorem main_command_assembled_witness:
  "aider_command [''a.py'', ''b/x.py''] = [''aider'', ''--file'', ''a.py'', ''--file'', ''b/x.py''] \<and>
   fst (main_command world_example [''a.py'', ''b/x.py''] [''YES'']) =
     [Print ''Generated Aider command:'',
      Print ''aider --file a.py --file b/x.py'',
      Prompt ''Do you want to execute this command? (yes/no): '',
      Exec [''aider'', ''--file'', ''a.py'', ''--file'', ''b/x.py'']] \<and>
   fst (main_command world_example [''a.py'', ''b/x.py''] [''yes '']) =
     [Print ''Generated Aider command:'',
      Print ''aider --file a.py --file b/x.py'',
      Prompt ''Do you want to execute this command? (yes/no): '']"
proof -
  have h: "[''a.py'', ''b/x.py''] \<noteq> []" by simp
  have l1: "lower ''YES'' = ''yes''" by code_simp
  have l2: "lower ''yes '' \<noteq> ''yes''" by (simp add: lower_def)
  from main_command_assembled [OF h, of world_example "''YES''" "[]"]
    main_command_assembled [OF h, of world_example "''yes ''" "[]"] l1 l2
  show ?thesis by (simp add: join_def)
qed

end
